theory Spec2Isabelle
  imports Main "HOL-Library.Word" "HOL-Library.Signed_Division" "HOL-Library.AList"
begin

unbundle bit_operations_syntax

section \<open>JavaScript values\<close>

text \<open>
  A JavaScript string is a sequence of UTF-16 code units; a \<open>Uint8Array\<close> is a sequence
  of bytes. ASCII literals of the source are written with \<open>js\<close>.
\<close>

type_synonym jsstring = "16 word list"
type_synonym byte = "8 word"

definition js :: "string \<Rightarrow> jsstring" where
  "js s = map (\<lambda>c. word_of_nat (of_char c)) s"

text \<open>\<open>String.prototype.startsWith\<close> with the default position 0.\<close>

definition startsWith :: "jsstring \<Rightarrow> jsstring \<Rightarrow> bool" where
  "startsWith s p = (take (length p) s = p)"

datatype jsvalue =
    JUndefined
  | JNull
  | JBool bool
  | JNum int
  | JStr jsstring
  | JArr "jsvalue list"
  | JObj "(jsstring \<times> jsvalue) list"

text \<open>The truthiness test behind \<open>!x\<close>, \<open>x ? a : b\<close> and \<open>x || y\<close>.\<close>

fun truthy :: "jsvalue \<Rightarrow> bool" where
  "truthy JUndefined = False"
| "truthy JNull = False"
| "truthy (JBool b) = b"
| "truthy (JNum n) = (n \<noteq> 0)"
| "truthy (JStr s) = (s \<noteq> [])"
| "truthy (JArr _) = True"
| "truthy (JObj _) = True"

text \<open>
  \<open>PasetoPayload\<close>: an object with string keys, in insertion order. Reading a property
  that is not there gives \<open>undefined\<close>; assigning a property replaces it in place or
  appends it.
\<close>

type_synonym PasetoPayload = "(jsstring \<times> jsvalue) list"

definition get_prop :: "PasetoPayload \<Rightarrow> jsstring \<Rightarrow> jsvalue" where
  "get_prop p k = (case map_of p k of None \<Rightarrow> JUndefined | Some v \<Rightarrow> v)"

definition set_prop :: "PasetoPayload \<Rightarrow> jsstring \<Rightarrow> jsvalue \<Rightarrow> PasetoPayload" where
  "set_prop p k v = AList.update k v p"

datatype codec_error =
    AuthenticationFailed
  | MalformedToken
  | TokenExpired
  | TokenNotYetValid
  | InvalidClaims

datatype error =
    Error jsstring
  | RangeError
  | CodecError codec_error

section \<open>Numbers as text\<close>

text \<open>
  A number of the source is a double; the model holds its value, an integer. Template
  literals print it with \<open>Number.prototype.toString\<close>. Up to
  \<open>Number.MAX_SAFE_INTEGER\<close> in absolute value every integer is a double and its text
  is its plain decimal notation. Beyond, the text is the shortest decimal that reads back
  as the same double, in exponent notation from \<open>10^21\<close>: that part of the platform's
  printer is a parameter of the model, the function \<open>beyond\<close>.
\<close>

definition digit_unit :: "nat \<Rightarrow> 16 word" where
  "digit_unit d = word_of_nat (48 + d)"

fun digits :: "nat \<Rightarrow> jsstring" where
  "digits n = (if n < 10 then [digit_unit n] else digits (n div 10) @ [digit_unit (n mod 10)])"

declare digits.simps [simp del]

definition decimal :: "int \<Rightarrow> jsstring" where
  "decimal n = (if n < 0 then js ''-'' @ digits (nat (- n)) else digits (nat n))"

definition safe_integer :: "int \<Rightarrow> bool" where
  "safe_integer n = (\<bar>n\<bar> \<le> 9007199254740991)"

definition number_toString :: "(int \<Rightarrow> jsstring) \<Rightarrow> int \<Rightarrow> jsstring" where
  "number_toString beyond n = (if safe_integer n then decimal n else beyond n)"

section \<open>convertExpiration\<close>

datatype exp_value = ExpNumber int | ExpString jsstring

definition units :: "(jsstring \<times> jsstring) list" where
  "units =
    [(js ''s'', js ''seconds''),
     (js ''m'', js ''minutes''),
     (js ''h'', js ''hours''),
     (js ''d'', js ''days''),
     (js ''w'', js ''weeks'')]"

definition is_digit :: "16 word \<Rightarrow> bool" where
  "is_digit c = (0x30 \<le> c \<and> c \<le> 0x39)"

text \<open>
  \<open>exp.match(/^(\d+)([smhdw])$/)\<close>: the greedy run of digits from the start, then one
  unit letter, then the end of the input. Digits and unit letters are disjoint, so the
  greedy run is the only candidate for the first group. The result holds the two groups;
  both take part in every match, so the fallback of \<open>unit ?? "s"\<close> is never taken.
\<close>

definition match_expiration :: "jsstring \<Rightarrow> (jsstring \<times> jsstring) option" where
  "match_expiration s =
    (let value = takeWhile is_digit s; rest = dropWhile is_digit s
     in if value \<noteq> [] \<and> length rest = 1 \<and> hd rest \<in> set (js ''smhdw'')
        then Some (value, rest) else None)"

text \<open>
  The remainder \<open>%\<close> of JavaScript takes the sign of the dividend (\<open>smod\<close>), and
  \<open>-0 === 0\<close> holds; on doubles it is exact. The quotient \<open>/\<close> is only taken where
  the remainder is zero, where it is the exact integer quotient, again a double.
\<close>

definition convertExpiration :: "(int \<Rightarrow> jsstring) \<Rightarrow> exp_value \<Rightarrow> error + jsstring" where
  "convertExpiration beyond e =
    (case e of
       ExpNumber n \<Rightarrow>
         if n smod 86400 = 0 then Inr (number_toString beyond (n div 86400) @ js '' days'')
         else if n smod 3600 = 0 then Inr (number_toString beyond (n div 3600) @ js '' hours'')
         else if n smod 60 = 0 then Inr (number_toString beyond (n div 60) @ js '' minutes'')
         else Inr (number_toString beyond n @ js '' seconds'')
     | ExpString s \<Rightarrow>
         (case match_expiration s of
            None \<Rightarrow> Inl (Error (js ''Invalid expiration format: '' @ s))
          | Some (value, unit) \<Rightarrow>
              let unitName = (case map_of units unit of
                                Some u \<Rightarrow> u
                              | None \<Rightarrow> js ''undefined'')
              in Inr (value @ js '' '' @ unitName)))"

section \<open>prepareSecret\<close>

text \<open>
  \<open>TextEncoder.encode\<close>: the string is read as code points (a surrogate pair is one
  code point, a lone surrogate is replaced by U+FFFD) and each is written in UTF-8.
\<close>

definition is_high_surrogate :: "16 word \<Rightarrow> bool" where
  "is_high_surrogate u = (0xD800 \<le> u \<and> u \<le> 0xDBFF)"

definition is_low_surrogate :: "16 word \<Rightarrow> bool" where
  "is_low_surrogate u = (0xDC00 \<le> u \<and> u \<le> 0xDFFF)"

definition scalar_value :: "16 word \<Rightarrow> nat" where
  "scalar_value u = (if is_high_surrogate u \<or> is_low_surrogate u then 0xFFFD else unat u)"

fun code_points :: "jsstring \<Rightarrow> nat list" where
  "code_points [] = []"
| "code_points [u] = [scalar_value u]"
| "code_points (u # v # rest) =
    (if is_high_surrogate u \<and> is_low_surrogate v
     then (0x10000 + (unat u - 0xD800) * 0x400 + (unat v - 0xDC00)) # code_points rest
     else scalar_value u # code_points (v # rest))"

definition utf8_bytes :: "nat \<Rightarrow> byte list" where
  "utf8_bytes cp =
    (if cp < 0x80 then [word_of_nat cp]
     else if cp < 0x800 then
       [word_of_nat (0xC0 + cp div 0x40), word_of_nat (0x80 + cp mod 0x40)]
     else if cp < 0x10000 then
       [word_of_nat (0xE0 + cp div 0x1000), word_of_nat (0x80 + cp div 0x40 mod 0x40),
        word_of_nat (0x80 + cp mod 0x40)]
     else
       [word_of_nat (0xF0 + cp div 0x40000), word_of_nat (0x80 + cp div 0x1000 mod 0x40),
        word_of_nat (0x80 + cp div 0x40 mod 0x40), word_of_nat (0x80 + cp mod 0x40)])"

definition TextEncoder_encode :: "jsstring \<Rightarrow> byte list" where
  "TextEncoder_encode s = concat (map utf8_bytes (code_points s))"

text \<open>\<open>new Uint8Array(n)\<close> is \<open>n\<close> zero bytes.\<close>

definition Uint8Array_new :: "nat \<Rightarrow> byte list" where
  "Uint8Array_new n = replicate n 0"

text \<open>
  \<open>target.set(source)\<close> copies \<open>source\<close> into \<open>target\<close> from index 0, element by
  element, and throws a \<open>RangeError\<close> when \<open>source\<close> does not fit.
\<close>

definition Uint8Array_set :: "byte list \<Rightarrow> byte list \<Rightarrow> error + byte list" where
  "Uint8Array_set target source =
    (if length target < length source then Inl RangeError
     else Inr (fold (\<lambda>i t. t[i := source ! i]) [0..<length source] target))"

text \<open>\<open>bytes.slice(start, end)\<close> for indices that are not negative.\<close>

definition slice :: "byte list \<Rightarrow> nat \<Rightarrow> nat \<Rightarrow> byte list" where
  "slice bs start end = take (min end (length bs) - start) (drop start bs)"

text \<open>
  \<open>Buffer.from(bytes).toString("base64url")\<close>: RFC 4648 base 64 with the URL-safe
  alphabet and no padding; three bytes give four characters, a rest of one byte gives
  two and a rest of two bytes gives three.
\<close>

definition base64url_alphabet :: jsstring where
  "base64url_alphabet =
    js ''ABCDEFGHIJKLMNOPQRSTUVWXYZabcdefghijklmnopqrstuvwxyz0123456789-_''"

definition sextet :: "byte \<Rightarrow> 16 word" where
  "sextet i = base64url_alphabet ! unat i"

fun base64url :: "byte list \<Rightarrow> jsstring" where
  "base64url [] = []"
| "base64url [a] = [sextet (drop_bit 2 a), sextet (push_bit 4 (a AND 3))]"
| "base64url [a, b] =
    [sextet (drop_bit 2 a),
     sextet (push_bit 4 (a AND 3) OR drop_bit 4 b),
     sextet (push_bit 2 (b AND 15))]"
| "base64url (a # b # c # rest) =
    sextet (drop_bit 2 a) #
    sextet (push_bit 4 (a AND 3) OR drop_bit 4 b) #
    sextet (push_bit 2 (b AND 15) OR drop_bit 6 c) #
    sextet (c AND 63) #
    base64url rest"

definition prepareSecret :: "jsstring \<Rightarrow> error + jsstring" where
  "prepareSecret secret =
    (if startsWith secret (js ''k4.local.'') then Inr secret
     else
       let secretBytes = TextEncoder_encode secret
       in case (if length secretBytes < 32
                then Uint8Array_set (Uint8Array_new 32) secretBytes
                else if length secretBytes > 32
                then Inr (slice secretBytes 0 32)
                else Inr secretBytes) of
            Inl err \<Rightarrow> Inl err
          | Inr keyBytes \<Rightarrow> Inr (js ''k4.local.'' @ base64url keyBytes))"

section \<open>The plugin\<close>

record PasetoOptions =
  opt_name :: "jsstring option"
  opt_secret :: "jsstring option"
  opt_exp :: "exp_value option"

text \<open>
  What the closures \<open>sign\<close> and \<open>verify\<close> capture: the decorator name, the prepared
  key, the configured \<open>exp\<close> and the default expiration text.
\<close>

record plugin =
  plugin_name :: jsstring
  decorator :: jsstring
  secretKey :: jsstring
  exp_option :: "exp_value option"
  defaultExpiration :: jsstring

fun exp_truthy :: "exp_value option \<Rightarrow> bool" where
  "exp_truthy None = False"
| "exp_truthy (Some (ExpNumber n)) = (n \<noteq> 0)"
| "exp_truthy (Some (ExpString s)) = (s \<noteq> [])"

definition paseto :: "(int \<Rightarrow> jsstring) \<Rightarrow> PasetoOptions option \<Rightarrow> error + plugin" where
  "paseto beyond options =
    (let name = (case Option.bind options opt_name of
                   None \<Rightarrow> js ''paseto''
                 | Some n \<Rightarrow> if n \<noteq> [] then n else js ''paseto'');
         secret = Option.bind options opt_secret;
         exp = Option.bind options opt_exp
     in case secret of
          None \<Rightarrow> Inl (Error (js ''PASETO secret is required''))
        | Some s \<Rightarrow>
            if s = [] then Inl (Error (js ''PASETO secret is required''))
            else
              (case prepareSecret s of
                 Inl err \<Rightarrow> Inl err
               | Inr key \<Rightarrow>
                   (case (case exp of
                            None \<Rightarrow> Inr (js ''1 hour'')
                          | Some e \<Rightarrow>
                              if exp_truthy exp then convertExpiration beyond e
                              else Inr (js ''1 hour'')) of
                      Inl err \<Rightarrow> Inl err
                    | Inr dflt \<Rightarrow>
                        Inr \<lparr>plugin_name = js ''plugin.'' @ name,
                             decorator = name,
                             secretKey = key,
                             exp_option = exp,
                             defaultExpiration = dflt\<rparr>)))"

section \<open>sign and verify\<close>

text \<open>
  The token codec (\<open>encrypt\<close> and \<open>decrypt\<close> of the PASETO library) is outside the
  program: it is a parameter of \<open>sign\<close> and \<open>verify\<close>, and an exception it throws is
  the value \<open>Inl\<close>. Every call that leaves the program (the codec, the console) is
  recorded in a trace, in order.
\<close>

record encrypt_options =
  addIat :: bool
  addExp :: bool
  validatePayload :: bool

record decrypt_options =
  dec_validatePayload :: bool

record decrypt_result =
  result_payload :: PasetoPayload
  result_footer :: jsstring

datatype event =
    EncryptCall jsstring PasetoPayload encrypt_options
  | DecryptCall jsstring jsstring decrypt_options
  | ConsoleWarn jsstring
  | ConsoleError jsstring error

fun is_DecryptCall :: "event \<Rightarrow> bool" where
  "is_DecryptCall (DecryptCall _ _ _) = True"
| "is_DecryptCall _ = False"

type_synonym encrypt_fn = "jsstring \<Rightarrow> PasetoPayload \<Rightarrow> encrypt_options \<Rightarrow> error + jsstring"
type_synonym decrypt_fn = "jsstring \<Rightarrow> jsstring \<Rightarrow> decrypt_options \<Rightarrow> error + decrypt_result"

definition sign :: "encrypt_fn \<Rightarrow> plugin \<Rightarrow> PasetoPayload \<Rightarrow> (error + jsstring) \<times> event list" where
  "sign encrypt p payload =
    (let tokenPayload = payload;
         tokenPayload =
           (if \<not> truthy (get_prop tokenPayload (js ''exp'')) \<and> exp_truthy (exp_option p)
            then set_prop tokenPayload (js ''exp'') (JStr (defaultExpiration p))
            else tokenPayload);
         opts = \<lparr>addIat = True,
                 addExp = \<not> truthy (get_prop payload (js ''exp'')),
                 validatePayload = True\<rparr>
     in (encrypt (secretKey p) tokenPayload opts,
         [EncryptCall (secretKey p) tokenPayload opts]))"

datatype verify_result = VFalse | VPayload PasetoPayload

definition verify :: "decrypt_fn \<Rightarrow> plugin \<Rightarrow> jsstring option \<Rightarrow> (error + verify_result) \<times> event list" where
  "verify decrypt p token =
    (case token of
       None \<Rightarrow> (Inr VFalse, [])
     | Some t \<Rightarrow>
         if t = [] then (Inr VFalse, [])
         else if \<not> startsWith t (js ''v4.local.'')
         then (Inr VFalse, [ConsoleWarn (js ''Invalid PASETO token format'')])
         else
           (case decrypt (secretKey p) t \<lparr>dec_validatePayload = True\<rparr> of
              Inr result \<Rightarrow>
                (Inr (VPayload (result_payload result)),
                 [DecryptCall (secretKey p) t \<lparr>dec_validatePayload = True\<rparr>])
            | Inl err \<Rightarrow>
                (Inr VFalse,
                 [DecryptCall (secretKey p) t \<lparr>dec_validatePayload = True\<rparr>,
                  ConsoleError (js ''PASETO verification failed:'') err])))"

section \<open>Specification-side notions\<close>

text \<open>
  The key format of the codec: the literal \<open>k4.local.\<close> followed by the unpadded
  base64url text of exactly 32 bytes.
\<close>

definition encodes_32_bytes :: "jsstring \<Rightarrow> bool" where
  "encodes_32_bytes k = (\<exists>bs. length bs = 32 \<and> k = js ''k4.local.'' @ base64url bs)"

text \<open>
  Key normalisation in the words of the specification: right-pad with zero bytes to 32,
  truncate to the first 32, or use as it is.
\<close>

definition pad_or_truncate :: "byte list \<Rightarrow> byte list" where
  "pad_or_truncate bs =
    (if length bs < 32 then bs @ replicate (32 - length bs) 0
     else if length bs > 32 then take 32 bs
     else bs)"

text \<open>
  The duration pattern in the words of the specification: digits (at least one)
  immediately followed by exactly one of the letters s, m, h, d, w.
\<close>

definition duration_pattern :: "jsstring \<Rightarrow> bool" where
  "duration_pattern s =
    (s \<noteq> [] \<and> butlast s \<noteq> [] \<and> list_all is_digit (butlast s) \<and>
     last s \<in> set (js ''smhdw''))"

text \<open>The unit table of the specification, by trailing letter.\<close>

definition unit_of_letter :: "16 word \<Rightarrow> jsstring" where
  "unit_of_letter c =
    (if [c] = js ''s'' then js ''seconds''
     else if [c] = js ''m'' then js ''minutes''
     else if [c] = js ''h'' then js ''hours''
     else if [c] = js ''d'' then js ''days''
     else js ''weeks'')"

text \<open>The units a number of seconds can be expressed in, largest first.\<close>

definition seconds_per_unit :: "(int \<times> jsstring) list" where
  "seconds_per_unit =
    [(86400, js ''days''), (3600, js ''hours''), (60, js ''minutes''), (1, js ''seconds'')]"

text \<open>
  Modelled from the spec: the token codec is not part of the repository. At its boundary
  an expiry that is already an absolute timestamp is embedded in the claims as it is
  given, and only a relative duration is converted. \<open>codec_keeps_exp encrypt decrypt T\<close>
  says that \<open>T\<close> is such a value for the codec: whenever claims holding \<open>T\<close> under
  \<open>exp\<close> are encrypted without a request to add an expiry, and the token decrypts under
  the same key, the decoded claims hold \<open>T\<close> under \<open>exp\<close>.
\<close>

definition codec_keeps_exp :: "encrypt_fn \<Rightarrow> decrypt_fn \<Rightarrow> jsvalue \<Rightarrow> bool" where
  "codec_keeps_exp encrypt decrypt T =
    (\<forall>key claims opts token result.
       get_prop claims (js ''exp'') = T \<and> \<not> addExp opts \<and>
       encrypt key claims opts = Inr token \<and>
       decrypt key token \<lparr>dec_validatePayload = True\<rparr> = Inr result \<longrightarrow>
       get_prop (result_payload result) (js ''exp'') = T)"

section \<open>Concrete inputs\<close>

text \<open>
  Stand-ins for the codec and for the printer of large numbers, the secret of the
  repository's tests with the key it normalises to, and the options and the instance
  built from them.
\<close>

definition sample_encrypt :: encrypt_fn where
  "sample_encrypt key claims opts = Inr (js ''v4.local.sample'')"

definition failing_decrypt :: decrypt_fn where
  "failing_decrypt key token opts = Inl (CodecError TokenExpired)"

definition sample_claims :: PasetoPayload where
  "sample_claims =
    [(js ''id'', JStr (js ''user123'')),
     (js ''exp'', JStr (js ''2030-01-01T00:00:00.000Z'')),
     (js ''iat'', JStr (js ''2026-01-01T00:00:00.000Z''))]"

definition sample_decrypt :: decrypt_fn where
  "sample_decrypt key token opts = Inr \<lparr>result_payload = sample_claims, result_footer = []\<rparr>"

text \<open>
  The platform's text for two numbers beyond the safe integers, \<open>2^60\<close> and
  \<open>10^21\<close>; no run below asks for another one.
\<close>

definition sample_large :: "int \<Rightarrow> jsstring" where
  "sample_large n =
    (if n = 1152921504606846976 then js ''1152921504606847000''
     else if n = 1000000000000000000000 then js ''1e+21''
     else [])"

definition test_secret :: jsstring where
  "test_secret = js ''test-secret-key-32-bytes-long!''"

definition test_key :: jsstring where
  "test_key = js ''k4.local.dGVzdC1zZWNyZXQta2V5LTMyLWJ5dGVzLWxvbmchAAA''"

definition test_options :: "exp_value option \<Rightarrow> PasetoOptions" where
  "test_options e = \<lparr>opt_name = None, opt_secret = Some test_secret, opt_exp = e\<rparr>"

definition test_plugin :: "exp_value option \<Rightarrow> jsstring \<Rightarrow> plugin" where
  "test_plugin e d =
    \<lparr>plugin_name = js ''plugin.paseto'', decorator = js ''paseto'', secretKey = test_key,
     exp_option = e, defaultExpiration = d\<rparr>"

definition long_secret :: jsstring where
  "long_secret = js ''0123456789abcdef0123456789abcdef-tail''"

definition cut_secret :: jsstring where
  "cut_secret = js ''0123456789abcdef0123456789abcdef''"

section \<open>Auxiliary facts\<close>

lemma smod_zero_iff_dvd: "0 < k \<Longrightarrow> (n::int) smod k = 0 \<longleftrightarrow> k dvd n"
proof -
  assume k: "0 < k"
  have "n smod k = sgn n * (\<bar>n\<bar> mod k)"
    using k by (simp add: signed_modulo_int_def)
  then have "n smod k = 0 \<longleftrightarrow> n = 0 \<or> \<bar>n\<bar> mod k = 0"
    by (simp add: sgn_0_0)
  also have "\<dots> \<longleftrightarrow> k dvd \<bar>n\<bar>"
    by (auto simp: dvd_eq_mod_eq_0)
  finally show ?thesis by simp
qed

lemma fold_set_prefix:
  "k \<le> length src \<Longrightarrow> length src \<le> length tgt \<Longrightarrow>
   fold (\<lambda>i t. t[i := src ! i]) [0..<k] tgt = take k src @ drop k tgt"
proof (induction k)
  case 0
  then show ?case by simp
next
  case (Suc k)
  then have k: "k < length src" "k < length tgt" by simp_all
  have "fold (\<lambda>i t. t[i := src ! i]) [0..<Suc k] tgt
          = (take k src @ drop k tgt)[k := src ! k]"
    using Suc by simp
  also have "\<dots> = take k src @ (drop k tgt)[0 := src ! k]"
    using k by (simp add: list_update_append)
  also have "drop k tgt = tgt ! k # drop (Suc k) tgt"
    using k by (simp add: Cons_nth_drop_Suc)
  also have "take k src @ (tgt ! k # drop (Suc k) tgt)[0 := src ! k]
          = take (Suc k) src @ drop (Suc k) tgt"
    using k by (simp add: take_Suc_conv_app_nth)
  finally show ?case .
qed

lemma Uint8Array_set_pad:
  assumes "length src \<le> n"
  shows "Uint8Array_set (Uint8Array_new n) src = Inr (src @ replicate (n - length src) 0)"
  using assms fold_set_prefix [of "length src" src "replicate n 0"]
  by (simp add: Uint8Array_set_def Uint8Array_new_def)

lemma length_base64url: "length (base64url bs) = (4 * length bs + 2) div 3"
  by (induction bs rule: base64url.induct) simp_all

lemma length_pad_or_truncate: "length (pad_or_truncate bs) = 32"
  by (simp add: pad_or_truncate_def)

lemma prepareSecret_plain:
  assumes "\<not> startsWith secret (js ''k4.local.'')"
  shows "prepareSecret secret =
    Inr (js ''k4.local.'' @ base64url (pad_or_truncate (TextEncoder_encode secret)))"
proof -
  let ?b = "TextEncoder_encode secret"
  show ?thesis
  proof (cases "length ?b < 32")
    case True
    then have "Uint8Array_set (Uint8Array_new 32) ?b = Inr (?b @ replicate (32 - length ?b) 0)"
      by (simp add: Uint8Array_set_pad)
    with True assms show ?thesis
      by (simp add: prepareSecret_def pad_or_truncate_def Let_def)
  next
    case False
    with assms show ?thesis
      by (simp add: prepareSecret_def pad_or_truncate_def slice_def Let_def)
  qed
qed

lemma prepareSecret_passthrough:
  "startsWith secret (js ''k4.local.'') \<Longrightarrow> prepareSecret secret = Inr secret"
  by (simp add: prepareSecret_def)

lemma prepareSecret_total: "\<exists>k. prepareSecret secret = Inr k"
  by (cases "startsWith secret (js ''k4.local.'')")
     (simp_all add: prepareSecret_plain prepareSecret_passthrough)

lemma unit_letter_not_digit: "u \<in> set (js ''smhdw'') \<Longrightarrow> \<not> is_digit u"
  by (auto simp: js_def is_digit_def)

lemma match_expiration_pattern:
  assumes "duration_pattern s"
  shows "match_expiration s = Some (butlast s, [last s])"
proof -
  from assms have s: "s = butlast s @ [last s]" and d: "\<forall>c\<in>set (butlast s). is_digit c"
    and u: "last s \<in> set (js ''smhdw'')" and ne: "butlast s \<noteq> []"
    by (simp_all add: duration_pattern_def list_all_iff)
  from u have nd: "\<not> is_digit (last s)" by (rule unit_letter_not_digit)
  have tw: "takeWhile is_digit (butlast s @ [last s]) = butlast s"
    using d nd by simp
  have dw: "dropWhile is_digit (butlast s @ [last s]) = [last s]"
    using d nd by simp
  have "match_expiration (butlast s @ [last s]) = Some (butlast s, [last s])"
    unfolding match_expiration_def tw dw using ne u by simp
  with s show ?thesis by simp
qed

lemma match_expiration_Some:
  assumes "match_expiration s = Some (v, r)"
  shows "duration_pattern s \<and> v = butlast s \<and> r = [last s]"
proof -
  let ?v = "takeWhile is_digit s" and ?r = "dropWhile is_digit s"
  from assms have v: "v = ?v" and r: "r = ?r" and ne: "?v \<noteq> []" and len: "length ?r = 1"
    and u: "hd ?r \<in> set (js ''smhdw'')"
    by (simp_all add: match_expiration_def Let_def split: if_splits)
  from len obtain c where c: "?r = [c]"
    by (cases ?r) simp_all
  have s: "s = ?v @ [c]"
    using takeWhile_dropWhile_id [of is_digit s] c by simp
  have bl: "butlast s = ?v" and la: "last s = c"
    by (subst s, simp)+
  have "list_all is_digit ?v"
    by (simp add: list_all_iff) (metis set_takeWhileD)
  moreover have "s \<noteq> []"
    by (subst s) simp
  ultimately show ?thesis
    using bl la ne u c unfolding duration_pattern_def v r by simp
qed

lemma match_expiration_None:
  "\<not> duration_pattern s \<Longrightarrow> match_expiration s = None"
  using match_expiration_Some [of s] by (cases "match_expiration s") auto

lemma js_append: "js (a @ b) = js a @ js b"
  by (simp add: js_def)

lemma encode_test_secret:
  "TextEncoder_encode test_secret =
    [0x74, 0x65, 0x73, 0x74, 0x2d, 0x73, 0x65, 0x63, 0x72, 0x65, 0x74, 0x2d, 0x6b, 0x65, 0x79,
     0x2d, 0x33, 0x32, 0x2d, 0x62, 0x79, 0x74, 0x65, 0x73, 0x2d, 0x6c, 0x6f, 0x6e, 0x67, 0x21]"
  by (simp add: test_secret_def js_def TextEncoder_encode_def utf8_bytes_def scalar_value_def
      is_high_surrogate_def is_low_surrogate_def)

lemma replicate_two: "replicate 2 x = [x, x]"
  by (simp add: numeral_2_eq_2)

lemma pad_test_secret:
  "pad_or_truncate (TextEncoder_encode test_secret) =
    [0x74, 0x65, 0x73, 0x74, 0x2d, 0x73, 0x65, 0x63, 0x72, 0x65, 0x74, 0x2d, 0x6b, 0x65, 0x79,
     0x2d, 0x33, 0x32, 0x2d, 0x62, 0x79, 0x74, 0x65, 0x73, 0x2d, 0x6c, 0x6f, 0x6e, 0x67, 0x21,
     0, 0]"
  by (simp add: encode_test_secret pad_or_truncate_def replicate_two)

lemma base64url_test_secret:
  "base64url
    [0x74, 0x65, 0x73, 0x74, 0x2d, 0x73, 0x65, 0x63, 0x72, 0x65, 0x74, 0x2d, 0x6b, 0x65, 0x79,
     0x2d, 0x33, 0x32, 0x2d, 0x62, 0x79, 0x74, 0x65, 0x73, 0x2d, 0x6c, 0x6f, 0x6e, 0x67, 0x21,
     0, 0] = js ''dGVzdC1zZWNyZXQta2V5LTMyLWJ5dGVzLWxvbmchAAA''"
  by (simp add: sextet_def base64url_alphabet_def js_def)

lemma test_secret_plain: "\<not> startsWith test_secret (js ''k4.local.'')"
  by (simp add: test_secret_def js_def startsWith_def)

lemma prepare_test_secret: "prepareSecret test_secret = Inr test_key"
  unfolding prepareSecret_plain [OF test_secret_plain] pad_test_secret base64url_test_secret
    test_key_def
  by (simp add: js_def)

lemma test_secret_nonempty: "test_secret \<noteq> []"
  by (simp add: test_secret_def js_def)

lemma paseto_test_options:
  "paseto beyond (Some (test_options e)) =
    (case (case e of None \<Rightarrow> Inr (js ''1 hour'')
           | Some x \<Rightarrow> if exp_truthy e then convertExpiration beyond x else Inr (js ''1 hour'')) of
       Inl err \<Rightarrow> Inl err
     | Inr d \<Rightarrow> Inr (test_plugin e d))"
  by (simp add: paseto_def test_options_def test_plugin_def prepare_test_secret
      test_secret_nonempty js_append [symmetric] split: sum.splits)

lemma paseto_fields:
  assumes "paseto beyond (Some opts) = Inr p"
  shows "exp_option p = opt_exp opts"
  using assms
  by (auto simp: paseto_def Let_def split: option.splits if_splits sum.splits)

lemma units_lookup:
  "u \<in> set (js ''smhdw'') \<Longrightarrow> map_of units [u] = Some (unit_of_letter u)"
  by (auto simp: units_def unit_of_letter_def js_def)

lemma convertExpiration_number:
  "\<exists>secs u. (secs, u) \<in> set seconds_per_unit \<and> secs dvd n \<and>
     (\<forall>secs' u'. (secs', u') \<in> set seconds_per_unit \<and> secs' dvd n \<longrightarrow> secs' \<le> secs) \<and>
     convertExpiration beyond (ExpNumber n) = Inr (number_toString beyond (n div secs) @ js '' '' @ u)"
proof -
  consider (days) "86400 dvd n"
    | (hours) "\<not> 86400 dvd n" "3600 dvd n"
    | (minutes) "\<not> 86400 dvd n" "\<not> 3600 dvd n" "60 dvd n"
    | (seconds) "\<not> 86400 dvd n" "\<not> 3600 dvd n" "\<not> 60 dvd n"
    by blast
  then show ?thesis
  proof cases
    case days
    then have "convertExpiration beyond (ExpNumber n) =
        Inr (number_toString beyond (n div 86400) @ js '' '' @ js ''days'')"
      by (simp add: convertExpiration_def smod_zero_iff_dvd js_def)
    with days show ?thesis
      by (intro exI [of _ 86400] exI [of _ "js ''days''"]) (auto simp: seconds_per_unit_def)
  next
    case hours
    then have "convertExpiration beyond (ExpNumber n) =
        Inr (number_toString beyond (n div 3600) @ js '' '' @ js ''hours'')"
      by (simp add: convertExpiration_def smod_zero_iff_dvd js_def)
    with hours show ?thesis
      by (intro exI [of _ 3600] exI [of _ "js ''hours''"]) (auto simp: seconds_per_unit_def)
  next
    case minutes
    then have "convertExpiration beyond (ExpNumber n) =
        Inr (number_toString beyond (n div 60) @ js '' '' @ js ''minutes'')"
      by (simp add: convertExpiration_def smod_zero_iff_dvd js_def)
    with minutes show ?thesis
      by (intro exI [of _ 60] exI [of _ "js ''minutes''"]) (auto simp: seconds_per_unit_def)
  next
    case seconds
    then have "convertExpiration beyond (ExpNumber n) =
        Inr (number_toString beyond (n div 1) @ js '' '' @ js ''seconds'')"
      by (simp add: convertExpiration_def smod_zero_iff_dvd js_def)
    with seconds show ?thesis
      by (intro exI [of _ 1] exI [of _ "js ''seconds''"]) (auto simp: seconds_per_unit_def)
  qed
qed

lemma convert_1h: "convertExpiration beyond (ExpString (js ''1h'')) = Inr (js ''1 hours'')"
  by (simp add: convertExpiration_def match_expiration_def is_digit_def js_def units_def)

lemma paseto_test_1h:
  "paseto beyond (Some (test_options (Some (ExpString (js ''1h''))))) =
     Inr (test_plugin (Some (ExpString (js ''1h''))) (js ''1 hours''))"
  by (simp add: paseto_test_options convert_1h) (simp add: js_def)

lemma encodes_32_bytes_length: "encodes_32_bytes k \<Longrightarrow> length k = 52"
  by (auto simp: encodes_32_bytes_def length_base64url js_def)

lemma seconds_per_unit_pos: "(secs, u) \<in> set seconds_per_unit \<Longrightarrow> 0 < secs"
  by (auto simp: seconds_per_unit_def)

section \<open>The claims\<close>

subsection \<open>C1\<close>

text \<open>
  Claim C1, as amended. When the plugin was configured without an \<open>exp\<close> option and the
  caller's claims hold no \<open>exp\<close>, \<open>sign\<close> puts no expiration value into the composed
  claims (they are the caller's claims, unchanged), and it does ask the codec to add an
  expiry: it calls \<open>encrypt\<close> once, with \<open>addIat\<close>, \<open>addExp\<close> and
  \<open>validatePayload\<close> all true.
\<close>

theorem sign_without_configured_exp:
  assumes "paseto beyond (Some opts) = Inr p"
    and "opt_exp opts = None"
    and "map_of payload (js ''exp'') = None"
  shows "sign encrypt p payload =
    (encrypt (secretKey p) payload \<lparr>addIat = True, addExp = True, validatePayload = True\<rparr>,
     [EncryptCall (secretKey p) payload
        \<lparr>addIat = True, addExp = True, validatePayload = True\<rparr>])"
proof -
  from assms(1,2) have "exp_option p = None"
    by (simp add: paseto_fields)
  with assms(3) show ?thesis
    by (simp add: sign_def get_prop_def Let_def)
qed

theorem sign_without_configured_exp_witness:
  "paseto sample_large (Some (test_options None)) = Inr (test_plugin None (js ''1 hour'')) \<and>
   opt_exp (test_options None) = None \<and>
   map_of [(js ''id'', JStr (js ''user123''))] (js ''exp'') = None \<and>
   sign sample_encrypt (test_plugin None (js ''1 hour'')) [(js ''id'', JStr (js ''user123''))] =
     (Inr (js ''v4.local.sample''),
      [EncryptCall test_key [(js ''id'', JStr (js ''user123''))]
         \<lparr>addIat = True, addExp = True, validatePayload = True\<rparr>])"
proof -
  have a: "paseto sample_large (Some (test_options None)) = Inr (test_plugin None (js ''1 hour''))"
    by (simp add: paseto_test_options)
  have b: "opt_exp (test_options None) = None"
    by (simp add: test_options_def)
  have c: "map_of [(js ''id'', JStr (js ''user123''))] (js ''exp'') = None"
    by (simp add: js_def)
  show ?thesis
    using a b c sign_without_configured_exp [OF a b c, of sample_encrypt]
    by (simp add: sample_encrypt_def test_plugin_def)
qed

text \<open>
  As stated, with \<open>addExp\<close> false, the claim fails: configured with the test secret and
  no \<open>exp\<close>, signing the empty claim set calls \<open>encrypt\<close> with \<open>addExp\<close> true.
\<close>

theorem sign_without_configured_exp_counterexample:
  "paseto sample_large (Some (test_options None)) = Inr (test_plugin None (js ''1 hour'')) \<and>
   get_prop [] (js ''exp'') = JUndefined \<and>
   snd (sign sample_encrypt (test_plugin None (js ''1 hour'')) []) =
     [EncryptCall test_key [] \<lparr>addIat = True, addExp = True, validatePayload = True\<rparr>]"
  by (simp add: paseto_test_options sign_def get_prop_def test_plugin_def Let_def)

subsection \<open>C2\<close>

text \<open>
  Claim C2. Configuring the plugin with a negative number of seconds as \<open>exp\<close> should
  fail at construction with the invalid-format error, as the string form of a negative
  duration does. The code does not do this: the numeric branch of the parser has no
  sign check. At \<open>exp = -5\<close> the parser returns \<open>-5 seconds\<close> and the construction
  yields an instance with that default expiration, while the string \<open>-5s\<close> is rejected.
\<close>

theorem negative_seconds_not_rejected:
  "convertExpiration sample_large (ExpNumber (- 5)) = Inr (js ''-5 seconds'') \<and>
   paseto sample_large (Some (test_options (Some (ExpNumber (- 5))))) =
     Inr (test_plugin (Some (ExpNumber (- 5))) (js ''-5 seconds'')) \<and>
   convertExpiration sample_large (ExpString (js ''-5s'')) =
     Inl (Error (js ''Invalid expiration format: -5s'')) \<and>
   paseto sample_large (Some (test_options (Some (ExpString (js ''-5s''))))) =
     Inl (Error (js ''Invalid expiration format: -5s''))"
proof -
  have a: "convertExpiration sample_large (ExpNumber (- 5)) = Inr (js ''-5 seconds'')"
    by (simp add: convertExpiration_def number_toString_def safe_integer_def decimal_def
        digits.simps digit_unit_def js_def signed_modulo_int_def)
  have b: "convertExpiration sample_large (ExpString (js ''-5s'')) =
     Inl (Error (js ''Invalid expiration format: -5s''))"
    by (simp add: convertExpiration_def match_expiration_def is_digit_def js_def)
  have c: "js ''-5s'' \<noteq> []"
    by (simp add: js_def)
  from a b c show ?thesis
    by (simp add: paseto_test_options)
qed

subsection \<open>C3\<close>

text \<open>
  Claim C3, as amended. For every secret that does not begin with \<open>k4.local.\<close>, the key
  is \<open>k4.local.\<close> followed by the base64url text of exactly 32 bytes. A secret that
  begins with \<open>k4.local.\<close> is used as the key unchanged, whatever follows the prefix.
\<close>

theorem prepareSecret_key_format:
  "(\<not> startsWith secret (js ''k4.local.'') \<longrightarrow>
      (\<exists>k. prepareSecret secret = Inr k \<and> encodes_32_bytes k)) \<and>
   (startsWith secret (js ''k4.local.'') \<longrightarrow> prepareSecret secret = Inr secret)"
proof (intro conjI impI)
  assume "\<not> startsWith secret (js ''k4.local.'')"
  then have "prepareSecret secret =
      Inr (js ''k4.local.'' @ base64url (pad_or_truncate (TextEncoder_encode secret)))"
    by (rule prepareSecret_plain)
  moreover have "encodes_32_bytes
      (js ''k4.local.'' @ base64url (pad_or_truncate (TextEncoder_encode secret)))"
    unfolding encodes_32_bytes_def
    by (rule exI [of _ "pad_or_truncate (TextEncoder_encode secret)"])
       (simp add: length_pad_or_truncate)
  ultimately show "\<exists>k. prepareSecret secret = Inr k \<and> encodes_32_bytes k"
    by blast
next
  assume "startsWith secret (js ''k4.local.'')"
  then show "prepareSecret secret = Inr secret"
    by (rule prepareSecret_passthrough)
qed

theorem prepareSecret_key_format_witness:
  "\<not> startsWith test_secret (js ''k4.local.'') \<and>
   (\<exists>k. prepareSecret test_secret = Inr k \<and> encodes_32_bytes k) \<and>
   startsWith (js ''k4.local.abc'') (js ''k4.local.'') \<and>
   prepareSecret (js ''k4.local.abc'') = Inr (js ''k4.local.abc'')"
proof -
  have b: "startsWith (js ''k4.local.abc'') (js ''k4.local.'')"
    by (simp add: startsWith_def js_def)
  show ?thesis
    using test_secret_plain b prepareSecret_key_format [of test_secret]
      prepareSecret_key_format [of "js ''k4.local.abc''"]
    by simp
qed

text \<open>
  As stated, for the passthrough branch too, the claim fails: the secret
  \<open>k4.local.abc\<close> is accepted at construction and becomes the key, and it does not
  encode 32 bytes.
\<close>

theorem prepareSecret_key_format_counterexample:
  "startsWith (js ''k4.local.abc'') (js ''k4.local.'') \<and>
   paseto sample_large (Some \<lparr>opt_name = None, opt_secret = Some (js ''k4.local.abc''), opt_exp = None\<rparr>) =
     Inr \<lparr>plugin_name = js ''plugin.paseto'', decorator = js ''paseto'',
          secretKey = js ''k4.local.abc'', exp_option = None,
          defaultExpiration = js ''1 hour''\<rparr> \<and>
   \<not> encodes_32_bytes (js ''k4.local.abc'')"
proof -
  have a: "startsWith (js ''k4.local.abc'') (js ''k4.local.'')"
    by (simp add: startsWith_def js_def)
  have b: "js ''k4.local.abc'' \<noteq> []"
    by (simp add: js_def)
  have c: "\<not> encodes_32_bytes (js ''k4.local.abc'')"
    using encodes_32_bytes_length [of "js ''k4.local.abc''"] by (auto simp: js_def)
  have d: "js ''plugin.'' @ js ''paseto'' = js ''plugin.paseto''"
    by (simp add: js_def)
  show ?thesis
    using a b c d by (simp add: paseto_def prepareSecret_passthrough)
qed

subsection \<open>C4\<close>

text \<open>
  Claim C4. For a token that is absent, empty, or does not begin with \<open>v4.local.\<close>,
  \<open>verify\<close> returns \<open>false\<close>, its trace holds no call of \<open>decrypt\<close>, and the outcome
  is the same whatever the codec is.
\<close>

theorem verify_format_gate:
  assumes "token = None \<or> token = Some [] \<or>
    (\<exists>t. token = Some t \<and> \<not> startsWith t (js ''v4.local.''))"
  shows "fst (verify decrypt p token) = Inr VFalse \<and>
    \<not> list_ex is_DecryptCall (snd (verify decrypt p token)) \<and>
    verify decrypt' p token = verify decrypt p token"
proof -
  have "verify d p token =
      (Inr VFalse,
       if token = None \<or> token = Some [] then []
       else [ConsoleWarn (js ''Invalid PASETO token format'')])" for d
    using assms by (cases token) (auto simp: verify_def)
  then show ?thesis by simp
qed

theorem verify_format_gate_witness:
  "\<not> startsWith (js ''v3.local.abc'') (js ''v4.local.'') \<and>
   fst (verify failing_decrypt (test_plugin None (js ''1 hour'')) (Some (js ''v3.local.abc''))) =
     Inr VFalse \<and>
   \<not> list_ex is_DecryptCall
     (snd (verify failing_decrypt (test_plugin None (js ''1 hour'')) (Some (js ''v3.local.abc''))))"
proof -
  have a: "\<not> startsWith (js ''v3.local.abc'') (js ''v4.local.'')"
    by (simp add: startsWith_def js_def)
  then have "Some (js ''v3.local.abc'') = None \<or> Some (js ''v3.local.abc'') = Some [] \<or>
    (\<exists>t. Some (js ''v3.local.abc'') = Some t \<and> \<not> startsWith t (js ''v4.local.''))"
    by simp
  from verify_format_gate [OF this, of failing_decrypt "test_plugin None (js ''1 hour'')"] a
  show ?thesis by simp
qed

subsection \<open>C5\<close>

text \<open>
  Claim C5. For every token, \<open>verify\<close> returns (it never raises), and what it returns
  is \<open>false\<close> or the claims that \<open>decrypt\<close> recovered from that token under the
  configured key. A missing token, an empty token, a wrong prefix and every exception of
  \<open>decrypt\<close> (authentication failure, expired, not yet valid) all give the same value
  \<open>false\<close>; a token with the prefix that \<open>decrypt\<close> accepts gives the recovered claims.
\<close>

theorem verify_never_raises:
  "(fst (verify decrypt p token) = Inr VFalse \<or>
      (\<exists>t result. token = Some t \<and> t \<noteq> [] \<and> startsWith t (js ''v4.local.'') \<and>
         decrypt (secretKey p) t \<lparr>dec_validatePayload = True\<rparr> = Inr result \<and>
         fst (verify decrypt p token) = Inr (VPayload (result_payload result)))) \<and>
   fst (verify decrypt p None) = Inr VFalse \<and>
   fst (verify decrypt p (Some [])) = Inr VFalse \<and>
   (\<forall>t. \<not> startsWith t (js ''v4.local.'') \<longrightarrow> fst (verify decrypt p (Some t)) = Inr VFalse) \<and>
   (\<forall>t err. decrypt (secretKey p) t \<lparr>dec_validatePayload = True\<rparr> = Inl err \<longrightarrow>
      fst (verify decrypt p (Some t)) = Inr VFalse) \<and>
   (\<forall>t result. t \<noteq> [] \<and> startsWith t (js ''v4.local.'') \<and>
      decrypt (secretKey p) t \<lparr>dec_validatePayload = True\<rparr> = Inr result \<longrightarrow>
      fst (verify decrypt p (Some t)) = Inr (VPayload (result_payload result)))"
proof (intro conjI allI impI)
  show "fst (verify decrypt p token) = Inr VFalse \<or>
      (\<exists>t result. token = Some t \<and> t \<noteq> [] \<and> startsWith t (js ''v4.local.'') \<and>
         decrypt (secretKey p) t \<lparr>dec_validatePayload = True\<rparr> = Inr result \<and>
         fst (verify decrypt p token) = Inr (VPayload (result_payload result)))"
  proof (cases token)
    case None
    then show ?thesis by (simp add: verify_def)
  next
    case (Some t)
    show ?thesis
    proof (cases "t = [] \<or> \<not> startsWith t (js ''v4.local.'')")
      case True
      with Some show ?thesis by (auto simp: verify_def)
    next
      case False
      with Some show ?thesis
        by (cases "decrypt (secretKey p) t \<lparr>dec_validatePayload = True\<rparr>")
           (simp_all add: verify_def)
    qed
  qed
qed (simp_all add: verify_def)

theorem verify_never_raises_witness:
  "\<not> startsWith (js ''v3.local.abc'') (js ''v4.local.'') \<and>
   fst (verify failing_decrypt (test_plugin None (js ''1 hour'')) (Some (js ''v3.local.abc''))) =
     Inr VFalse \<and>
   failing_decrypt test_key (js ''v4.local.sample'') \<lparr>dec_validatePayload = True\<rparr> =
     Inl (CodecError TokenExpired) \<and>
   fst (verify failing_decrypt (test_plugin None (js ''1 hour'')) (Some (js ''v4.local.sample''))) =
     Inr VFalse \<and>
   js ''v4.local.sample'' \<noteq> [] \<and> startsWith (js ''v4.local.sample'') (js ''v4.local.'') \<and>
   sample_decrypt test_key (js ''v4.local.sample'') \<lparr>dec_validatePayload = True\<rparr> =
     Inr \<lparr>result_payload = sample_claims, result_footer = []\<rparr> \<and>
   fst (verify sample_decrypt (test_plugin None (js ''1 hour'')) (Some (js ''v4.local.sample''))) =
     Inr (VPayload sample_claims)"
proof -
  have a: "\<not> startsWith (js ''v3.local.abc'') (js ''v4.local.'')"
    by (simp add: startsWith_def js_def)
  have b: "failing_decrypt (secretKey (test_plugin None (js ''1 hour''))) (js ''v4.local.sample'')
      \<lparr>dec_validatePayload = True\<rparr> = Inl (CodecError TokenExpired)"
    by (simp add: failing_decrypt_def)
  have c: "secretKey (test_plugin None (js ''1 hour'')) = test_key"
    by (simp add: test_plugin_def)
  have d: "js ''v4.local.sample'' \<noteq> []" "startsWith (js ''v4.local.sample'') (js ''v4.local.'')"
    by (simp_all add: startsWith_def js_def)
  have e: "sample_decrypt (secretKey (test_plugin None (js ''1 hour''))) (js ''v4.local.sample'')
      \<lparr>dec_validatePayload = True\<rparr> =
     Inr \<lparr>result_payload = sample_claims, result_footer = []\<rparr>"
    by (simp add: sample_decrypt_def)
  from verify_never_raises [of failing_decrypt "test_plugin None (js ''1 hour'')" None]
    verify_never_raises [of sample_decrypt "test_plugin None (js ''1 hour'')" None]
    a b c d e
  show ?thesis by simp
qed

subsection \<open>C6\<close>

text \<open>
  Claim C6. For every caller claim set that already holds an expiry \<open>T\<close> under \<open>exp\<close>
  (a truthy value; for a string, a non-empty one), \<open>sign\<close> hands the caller's claims to
  \<open>encrypt\<close> unchanged, so with \<open>exp\<close> still \<open>T\<close>, and with \<open>addExp\<close> false,
  whatever default duration the plugin was configured with. With a codec that embeds
  \<open>T\<close> as it is given, the claims that \<open>verify\<close> decodes from the signed token hold
  \<open>T\<close> under \<open>exp\<close>, not the configured default.
\<close>

theorem sign_keeps_caller_exp:
  assumes "get_prop payload (js ''exp'') = T" and "truthy T"
  shows "sign encrypt p payload =
      (encrypt (secretKey p) payload \<lparr>addIat = True, addExp = False, validatePayload = True\<rparr>,
       [EncryptCall (secretKey p) payload
          \<lparr>addIat = True, addExp = False, validatePayload = True\<rparr>]) \<and>
    (\<forall>decrypt token claims.
       codec_keeps_exp encrypt decrypt T \<and>
       fst (sign encrypt p payload) = Inr token \<and>
       fst (verify decrypt p (Some token)) = Inr (VPayload claims) \<longrightarrow>
       get_prop claims (js ''exp'') = T)"
proof (intro conjI allI impI)
  show s: "sign encrypt p payload =
      (encrypt (secretKey p) payload \<lparr>addIat = True, addExp = False, validatePayload = True\<rparr>,
       [EncryptCall (secretKey p) payload
          \<lparr>addIat = True, addExp = False, validatePayload = True\<rparr>])"
    using assms by (simp add: sign_def Let_def)
  fix decrypt token claims
  assume h: "codec_keeps_exp encrypt decrypt T \<and>
       fst (sign encrypt p payload) = Inr token \<and>
       fst (verify decrypt p (Some token)) = Inr (VPayload claims)"
  from h s have enc: "encrypt (secretKey p) payload
      \<lparr>addIat = True, addExp = False, validatePayload = True\<rparr> = Inr token"
    by simp
  from h obtain result where
    dec: "decrypt (secretKey p) token \<lparr>dec_validatePayload = True\<rparr> = Inr result"
    and cl: "claims = result_payload result"
    by (auto simp: verify_def split: if_splits sum.splits)
  from h have "codec_keeps_exp encrypt decrypt T" by simp
  then have "get_prop (result_payload result) (js ''exp'') = T"
    unfolding codec_keeps_exp_def using assms(1) enc dec
    by (metis encrypt_options.select_convs(2))
  with cl show "get_prop claims (js ''exp'') = T"
    by simp
qed

theorem sign_keeps_caller_exp_witness:
  "paseto sample_large (Some (test_options (Some (ExpString (js ''1h''))))) =
     Inr (test_plugin (Some (ExpString (js ''1h''))) (js ''1 hours'')) \<and>
   get_prop [(js ''exp'', JStr (js ''2030-01-01T00:00:00.000Z''))] (js ''exp'') =
     JStr (js ''2030-01-01T00:00:00.000Z'') \<and>
   truthy (JStr (js ''2030-01-01T00:00:00.000Z'')) \<and>
   sign sample_encrypt (test_plugin (Some (ExpString (js ''1h''))) (js ''1 hours''))
       [(js ''exp'', JStr (js ''2030-01-01T00:00:00.000Z''))] =
     (Inr (js ''v4.local.sample''),
      [EncryptCall test_key [(js ''exp'', JStr (js ''2030-01-01T00:00:00.000Z''))]
         \<lparr>addIat = True, addExp = False, validatePayload = True\<rparr>]) \<and>
   codec_keeps_exp sample_encrypt sample_decrypt (JStr (js ''2030-01-01T00:00:00.000Z'')) \<and>
   fst (verify sample_decrypt (test_plugin (Some (ExpString (js ''1h''))) (js ''1 hours''))
       (Some (js ''v4.local.sample''))) = Inr (VPayload sample_claims) \<and>
   get_prop sample_claims (js ''exp'') = JStr (js ''2030-01-01T00:00:00.000Z'')"
proof -
  let ?T = "JStr (js ''2030-01-01T00:00:00.000Z'')"
  let ?p = "test_plugin (Some (ExpString (js ''1h''))) (js ''1 hours'')"
  have a: "get_prop [(js ''exp'', ?T)] (js ''exp'') = ?T"
    by (simp add: get_prop_def)
  have b: "truthy ?T"
    by (simp add: js_def)
  have c: "get_prop sample_claims (js ''exp'') = ?T"
    by (simp add: get_prop_def sample_claims_def js_def)
  have d: "codec_keeps_exp sample_encrypt sample_decrypt ?T"
    using c by (simp add: codec_keeps_exp_def sample_decrypt_def)
  have e: "fst (sign sample_encrypt ?p [(js ''exp'', ?T)]) = Inr (js ''v4.local.sample'')"
    using a b by (simp add: sign_def sample_encrypt_def Let_def)
  have f: "fst (verify sample_decrypt ?p (Some (js ''v4.local.sample''))) =
      Inr (VPayload sample_claims)"
    by (simp add: verify_def sample_decrypt_def startsWith_def js_def)
  from sign_keeps_caller_exp [OF a b, of sample_encrypt ?p] a b c d e f paseto_test_1h
  show ?thesis
    by (simp add: sample_encrypt_def test_plugin_def)
qed

subsection \<open>C7\<close>

text \<open>
  Claim C7. For every secret that does not begin with \<open>k4.local.\<close>, the key is
  \<open>k4.local.\<close> followed by the base64url text of the secret's UTF-8 bytes, right-padded
  with zero bytes to 32 when shorter, cut to the first 32 when longer, and as they are
  when exactly 32; these are always 32 bytes, and the key is determined by the bytes of
  the secret.
\<close>

theorem prepareSecret_pads_or_truncates:
  assumes "\<not> startsWith secret (js ''k4.local.'')"
  shows "prepareSecret secret =
      Inr (js ''k4.local.'' @ base64url (pad_or_truncate (TextEncoder_encode secret))) \<and>
    length (pad_or_truncate (TextEncoder_encode secret)) = 32 \<and>
    (\<forall>secret'. \<not> startsWith secret' (js ''k4.local.'') \<and>
        TextEncoder_encode secret' = TextEncoder_encode secret \<longrightarrow>
        prepareSecret secret' = prepareSecret secret)"
  using assms by (simp add: prepareSecret_plain length_pad_or_truncate)

theorem prepareSecret_pads_or_truncates_witness:
  "\<not> startsWith test_secret (js ''k4.local.'') \<and>
   pad_or_truncate (TextEncoder_encode test_secret) =
    [0x74, 0x65, 0x73, 0x74, 0x2d, 0x73, 0x65, 0x63, 0x72, 0x65, 0x74, 0x2d, 0x6b, 0x65, 0x79,
     0x2d, 0x33, 0x32, 0x2d, 0x62, 0x79, 0x74, 0x65, 0x73, 0x2d, 0x6c, 0x6f, 0x6e, 0x67, 0x21,
     0, 0] \<and>
   prepareSecret test_secret =
     Inr (js ''k4.local.'' @ base64url (pad_or_truncate (TextEncoder_encode test_secret)))"
  using test_secret_plain pad_test_secret prepareSecret_pads_or_truncates [OF test_secret_plain]
  by simp

subsection \<open>C8\<close>

text \<open>
  Claim C8. For every non-negative number of seconds \<open>n\<close>, the parser expresses \<open>n\<close> in
  the largest of the units days, hours, minutes, seconds that divides it, testing days,
  then hours, then minutes, and falling back to seconds; the magnitude is the exact
  quotient, printed as the platform prints a number: in plain decimal when \<open>n\<close> is a
  safe integer. 604800 gives \<open>7 days\<close>.
\<close>

theorem convertExpiration_largest_unit:
  assumes "0 \<le> n"
  shows "(\<exists>secs u. (secs, u) \<in> set seconds_per_unit \<and> secs dvd n \<and>
       (\<forall>secs' u'. (secs', u') \<in> set seconds_per_unit \<and> secs' dvd n \<longrightarrow> secs' \<le> secs) \<and>
       0 \<le> n div secs \<and> n div secs * secs = n \<and>
       convertExpiration beyond (ExpNumber n) =
         Inr (number_toString beyond (n div secs) @ js '' '' @ u) \<and>
       (safe_integer n \<longrightarrow>
          convertExpiration beyond (ExpNumber n) = Inr (decimal (n div secs) @ js '' '' @ u))) \<and>
    (86400 dvd n \<longrightarrow>
       convertExpiration beyond (ExpNumber n) =
         Inr (number_toString beyond (n div 86400) @ js '' days'')) \<and>
    (\<not> 86400 dvd n \<and> 3600 dvd n \<longrightarrow>
       convertExpiration beyond (ExpNumber n) =
         Inr (number_toString beyond (n div 3600) @ js '' hours'')) \<and>
    (\<not> 3600 dvd n \<and> 60 dvd n \<longrightarrow>
       convertExpiration beyond (ExpNumber n) =
         Inr (number_toString beyond (n div 60) @ js '' minutes'')) \<and>
    (\<not> 60 dvd n \<longrightarrow>
       convertExpiration beyond (ExpNumber n) = Inr (number_toString beyond n @ js '' seconds'')) \<and>
    convertExpiration beyond (ExpNumber 604800) = Inr (js ''7 days'')"
proof -
  from convertExpiration_number [of n beyond] obtain secs u where
    su: "(secs, u) \<in> set seconds_per_unit" "secs dvd n"
      "\<forall>secs' u'. (secs', u') \<in> set seconds_per_unit \<and> secs' dvd n \<longrightarrow> secs' \<le> secs"
      "convertExpiration beyond (ExpNumber n) =
         Inr (number_toString beyond (n div secs) @ js '' '' @ u)"
    by blast
  from su(1) have pos: "0 < secs"
    by (rule seconds_per_unit_pos)
  with assms have q0: "0 \<le> n div secs"
    by (simp add: pos_imp_zdiv_nonneg_iff)
  from su(2) have exact: "n div secs * secs = n"
    by simp
  have "n div secs \<le> n div secs * secs"
    using q0 pos by (simp add: mult_le_cancel_left1)
  with exact have qn: "n div secs \<le> n"
    by simp
  have safe: "convertExpiration beyond (ExpNumber n) = Inr (decimal (n div secs) @ js '' '' @ u)"
    if "safe_integer n"
  proof -
    from that q0 qn have "safe_integer (n div secs)"
      by (simp add: safe_integer_def)
    with su(4) show ?thesis
      by (simp add: number_toString_def)
  qed
  have first: "\<exists>secs u. (secs, u) \<in> set seconds_per_unit \<and> secs dvd n \<and>
       (\<forall>secs' u'. (secs', u') \<in> set seconds_per_unit \<and> secs' dvd n \<longrightarrow> secs' \<le> secs) \<and>
       0 \<le> n div secs \<and> n div secs * secs = n \<and>
       convertExpiration beyond (ExpNumber n) =
         Inr (number_toString beyond (n div secs) @ js '' '' @ u) \<and>
       (safe_integer n \<longrightarrow>
          convertExpiration beyond (ExpNumber n) = Inr (decimal (n div secs) @ js '' '' @ u))"
    using su q0 exact safe by blast
  have d3600: "86400 dvd n \<Longrightarrow> 3600 dvd n"
    by (rule dvd_trans [of 3600 86400]) simp_all
  have d60: "3600 dvd n \<Longrightarrow> 60 dvd n"
    by (rule dvd_trans [of 60 3600]) simp_all
  have ex: "convertExpiration beyond (ExpNumber 604800) = Inr (js ''7 days'')"
    by (simp add: convertExpiration_def number_toString_def safe_integer_def decimal_def
        digits.simps digit_unit_def js_def signed_modulo_int_def)
  have branches: "(86400 dvd n \<longrightarrow>
       convertExpiration beyond (ExpNumber n) =
         Inr (number_toString beyond (n div 86400) @ js '' days'')) \<and>
    (\<not> 86400 dvd n \<and> 3600 dvd n \<longrightarrow>
       convertExpiration beyond (ExpNumber n) =
         Inr (number_toString beyond (n div 3600) @ js '' hours'')) \<and>
    (\<not> 3600 dvd n \<and> 60 dvd n \<longrightarrow>
       convertExpiration beyond (ExpNumber n) =
         Inr (number_toString beyond (n div 60) @ js '' minutes'')) \<and>
    (\<not> 60 dvd n \<longrightarrow>
       convertExpiration beyond (ExpNumber n) = Inr (number_toString beyond n @ js '' seconds''))"
    using d3600 d60 by (auto simp: convertExpiration_def smod_zero_iff_dvd)
  from first branches ex show ?thesis
    by blast
qed

theorem convertExpiration_largest_unit_witness:
  "(0::int) \<le> 300 \<and> \<not> 3600 dvd (300::int) \<and> 60 dvd (300::int) \<and> safe_integer 300 \<and>
   convertExpiration sample_large (ExpNumber 300) = Inr (js ''5 minutes'') \<and>
   (0::int) \<le> 1152921504606846976 \<and> \<not> 60 dvd (1152921504606846976::int) \<and>
   \<not> safe_integer 1152921504606846976 \<and>
   convertExpiration sample_large (ExpNumber 1152921504606846976) =
     Inr (js ''1152921504606847000 seconds'') \<and>
   (0::int) \<le> 1000000000000000000000 \<and> \<not> 60 dvd (1000000000000000000000::int) \<and>
   convertExpiration sample_large (ExpNumber 1000000000000000000000) = Inr (js ''1e+21 seconds'')"
proof -
  have a: "(0::int) \<le> 300" by simp
  have b: "number_toString sample_large 5 @ js '' minutes'' = js ''5 minutes''"
    by (simp add: number_toString_def safe_integer_def decimal_def digits.simps digit_unit_def
        js_def)
  have c: "safe_integer 300"
    by (simp add: safe_integer_def)
  have d: "(0::int) \<le> 1152921504606846976" "\<not> 60 dvd (1152921504606846976::int)"
      "\<not> safe_integer 1152921504606846976"
    by (simp_all add: safe_integer_def)
  have e: "number_toString sample_large 1152921504606846976 @ js '' seconds'' =
      js ''1152921504606847000 seconds''"
    by (simp add: number_toString_def safe_integer_def sample_large_def js_def)
  have f: "(0::int) \<le> 1000000000000000000000" "\<not> 60 dvd (1000000000000000000000::int)"
    by simp_all
  have g: "number_toString sample_large 1000000000000000000000 @ js '' seconds'' =
      js ''1e+21 seconds''"
    by (simp add: number_toString_def safe_integer_def sample_large_def js_def)
  from convertExpiration_largest_unit [OF a, of sample_large]
    convertExpiration_largest_unit [OF d(1), of sample_large]
    convertExpiration_largest_unit [OF f(1), of sample_large]
    b c d e f g
  show ?thesis
    by simp
qed

subsection \<open>C9\<close>

text \<open>
  Claim C9, as amended. For every string, the parser succeeds exactly when the string is
  digits followed by one of the letters s, m, h, d, w; it then returns the digits, a
  space and the unit the table gives for the letter, and otherwise it fails with
  \<open>Invalid expiration format\<close>. Configuring the plugin with a non-empty secret and a
  non-empty \<open>exp\<close> string that does not match fails at construction with that error.
\<close>

theorem convertExpiration_string:
  "((\<exists>d. convertExpiration beyond (ExpString s) = Inr d) \<longleftrightarrow> duration_pattern s) \<and>
   (duration_pattern s \<longrightarrow>
      convertExpiration beyond (ExpString s) = Inr (butlast s @ js '' '' @ unit_of_letter (last s))) \<and>
   (\<not> duration_pattern s \<longrightarrow>
      convertExpiration beyond (ExpString s) = Inl (Error (js ''Invalid expiration format: '' @ s))) \<and>
   (\<not> duration_pattern s \<and> s \<noteq> [] \<and> opt_secret opts = Some k \<and> k \<noteq> [] \<longrightarrow>
      paseto beyond (Some (opts\<lparr>opt_exp := Some (ExpString s)\<rparr>)) =
        Inl (Error (js ''Invalid expiration format: '' @ s)))"
proof -
  have ok: "convertExpiration beyond (ExpString s) = Inr (butlast s @ js '' '' @ unit_of_letter (last s))"
    if "duration_pattern s"
  proof -
    from that have "last s \<in> set (js ''smhdw'')"
      by (simp add: duration_pattern_def)
    then have "map_of units [last s] = Some (unit_of_letter (last s))"
      by (rule units_lookup)
    with that show ?thesis
      by (simp add: convertExpiration_def match_expiration_pattern)
  qed
  have bad: "convertExpiration beyond (ExpString s) = Inl (Error (js ''Invalid expiration format: '' @ s))"
    if "\<not> duration_pattern s"
    using that by (simp add: convertExpiration_def match_expiration_None)
  have ctor: "paseto beyond (Some (opts\<lparr>opt_exp := Some (ExpString s)\<rparr>)) =
        Inl (Error (js ''Invalid expiration format: '' @ s))"
    if "\<not> duration_pattern s" "s \<noteq> []" "opt_secret opts = Some k" "k \<noteq> []"
  proof -
    from prepareSecret_total [of k] obtain key where "prepareSecret k = Inr key" ..
    with that bad show ?thesis
      by (simp add: paseto_def Let_def)
  qed
  from ok bad ctor show ?thesis
    by (cases "duration_pattern s") auto
qed

theorem convertExpiration_string_witness:
  "duration_pattern (js ''7d'') \<and>
   convertExpiration sample_large (ExpString (js ''7d'')) = Inr (js ''7 days'') \<and>
   \<not> duration_pattern (js ''3x'') \<and> js ''3x'' \<noteq> [] \<and>
   opt_secret (test_options None) = Some test_secret \<and> test_secret \<noteq> [] \<and>
   convertExpiration sample_large (ExpString (js ''3x'')) = Inl (Error (js ''Invalid expiration format: 3x'')) \<and>
   paseto sample_large (Some ((test_options None)\<lparr>opt_exp := Some (ExpString (js ''3x''))\<rparr>)) =
     Inl (Error (js ''Invalid expiration format: 3x''))"
proof -
  have a: "duration_pattern (js ''7d'')"
    by (simp add: duration_pattern_def is_digit_def js_def)
  have b: "\<not> duration_pattern (js ''3x'')"
    by (simp add: duration_pattern_def is_digit_def js_def)
  have c: "js ''3x'' \<noteq> []"
    by (simp add: js_def)
  have d: "opt_secret (test_options None) = Some test_secret"
    by (simp add: test_options_def)
  have e: "butlast (js ''7d'') @ js '' '' @ unit_of_letter (last (js ''7d'')) = js ''7 days''"
    by (simp add: unit_of_letter_def js_def)
  have f: "js ''Invalid expiration format: '' @ js ''3x'' = js ''Invalid expiration format: 3x''"
    by (simp add: js_def)
  from convertExpiration_string [of sample_large "js ''7d''"]
    convertExpiration_string [of sample_large "js ''3x''" "test_options None" test_secret]
    a b c d e f test_secret_nonempty
  show ?thesis by simp
qed

text \<open>
  As stated, for any string that does not match, the claim fails at the empty string:
  it does not match the pattern, and the construction succeeds, as if no \<open>exp\<close> had
  been given.
\<close>

theorem convertExpiration_string_counterexample:
  "\<not> duration_pattern [] \<and>
   paseto sample_large (Some (test_options (Some (ExpString [])))) =
     Inr (test_plugin (Some (ExpString [])) (js ''1 hour''))"
  by (simp add: duration_pattern_def paseto_test_options)

subsection \<open>C10\<close>

text \<open>
  Claim C10. Key normalisation is not injective on the secrets that do not begin with
  \<open>k4.local.\<close>: any two of them whose UTF-8 bytes agree after padding or truncation to
  32 bytes give the same key, so plugins configured with one or the other (and otherwise
  alike) are the same, and \<open>verify\<close> under one accepts what it accepts under the other.
\<close>

theorem prepareSecret_not_injective:
  "\<not> inj_on prepareSecret {s. \<not> startsWith s (js ''k4.local.'')} \<and>
   (\<forall>s1 s2. \<not> startsWith s1 (js ''k4.local.'') \<and> \<not> startsWith s2 (js ''k4.local.'') \<and>
        pad_or_truncate (TextEncoder_encode s1) = pad_or_truncate (TextEncoder_encode s2) \<longrightarrow>
        prepareSecret s1 = prepareSecret s2 \<and>
        (\<forall>opts p1 p2.
           paseto beyond (Some (opts\<lparr>opt_secret := Some s1\<rparr>)) = Inr p1 \<and>
           paseto beyond (Some (opts\<lparr>opt_secret := Some s2\<rparr>)) = Inr p2 \<longrightarrow>
           secretKey p1 = secretKey p2 \<and> p1 = p2 \<and>
           (\<forall>decrypt token. verify decrypt p1 token = verify decrypt p2 token)))"
proof (intro conjI allI impI)
  have same: "prepareSecret s1 = prepareSecret s2"
    if "\<not> startsWith s1 (js ''k4.local.'')" "\<not> startsWith s2 (js ''k4.local.'')"
      "pad_or_truncate (TextEncoder_encode s1) = pad_or_truncate (TextEncoder_encode s2)"
    for s1 s2
    using that by (simp add: prepareSecret_plain)
  have a: "\<not> startsWith (js ''a'') (js ''k4.local.'')"
    by (simp add: startsWith_def js_def)
  have b: "\<not> startsWith (js ''a'' @ [0]) (js ''k4.local.'')"
    by (simp add: startsWith_def js_def)
  have r: "replicate 31 (0::byte) = 0 # replicate 30 0"
    using replicate_Suc [of 30 "0::byte"] by simp
  have c: "pad_or_truncate (TextEncoder_encode (js ''a'')) =
      pad_or_truncate (TextEncoder_encode (js ''a'' @ [0]))"
    by (simp add: pad_or_truncate_def js_def TextEncoder_encode_def utf8_bytes_def
        scalar_value_def is_high_surrogate_def is_low_surrogate_def r)
  have "prepareSecret (js ''a'') = prepareSecret (js ''a'' @ [0])"
    using a b c by (rule same)
  moreover have "js ''a'' \<noteq> js ''a'' @ [0]"
    by simp
  ultimately show "\<not> inj_on prepareSecret {s. \<not> startsWith s (js ''k4.local.'')}"
    using a b by (auto simp: inj_on_def)
next
  fix s1 s2
  assume h: "\<not> startsWith s1 (js ''k4.local.'') \<and> \<not> startsWith s2 (js ''k4.local.'') \<and>
        pad_or_truncate (TextEncoder_encode s1) = pad_or_truncate (TextEncoder_encode s2)"
  then show eq: "prepareSecret s1 = prepareSecret s2"
    by (simp add: prepareSecret_plain)
  fix opts p1 p2
  assume p: "paseto beyond (Some (opts\<lparr>opt_secret := Some s1\<rparr>)) = Inr p1 \<and>
           paseto beyond (Some (opts\<lparr>opt_secret := Some s2\<rparr>)) = Inr p2"
  then have "s1 \<noteq> []" "s2 \<noteq> []"
    by (auto simp: paseto_def Let_def split: if_splits)
  with p eq have "p1 = p2"
    by (auto simp: paseto_def Let_def split: sum.splits option.splits if_splits)
  then show "secretKey p1 = secretKey p2" "p1 = p2"
    "verify decrypt p1 token = verify decrypt p2 token" for decrypt token
    by simp_all
qed

theorem prepareSecret_not_injective_witness:
  "\<not> startsWith long_secret (js ''k4.local.'') \<and>
   \<not> startsWith cut_secret (js ''k4.local.'') \<and>
   long_secret \<noteq> cut_secret \<and>
   pad_or_truncate (TextEncoder_encode long_secret) =
     pad_or_truncate (TextEncoder_encode cut_secret) \<and>
   prepareSecret long_secret = prepareSecret cut_secret \<and>
   (\<exists>p1 p2.
      paseto sample_large (Some ((test_options None)\<lparr>opt_secret := Some long_secret\<rparr>)) = Inr p1 \<and>
      paseto sample_large (Some ((test_options None)\<lparr>opt_secret := Some cut_secret\<rparr>)) = Inr p2 \<and>
      secretKey p1 = secretKey p2 \<and>
      verify failing_decrypt p1 (Some (js ''v4.local.sample'')) =
        verify failing_decrypt p2 (Some (js ''v4.local.sample'')))"
proof -
  have a: "\<not> startsWith long_secret (js ''k4.local.'')"
    by (simp add: startsWith_def long_secret_def js_def)
  have b: "\<not> startsWith cut_secret (js ''k4.local.'')"
    by (simp add: startsWith_def cut_secret_def js_def)
  have c: "long_secret \<noteq> cut_secret"
    by (simp add: long_secret_def cut_secret_def js_def)
  have d: "pad_or_truncate (TextEncoder_encode long_secret) =
     pad_or_truncate (TextEncoder_encode cut_secret)"
    by (simp add: pad_or_truncate_def long_secret_def cut_secret_def js_def
        TextEncoder_encode_def utf8_bytes_def scalar_value_def is_high_surrogate_def
        is_low_surrogate_def)
  have ne: "long_secret \<noteq> []" "cut_secret \<noteq> []"
    by (simp_all add: long_secret_def cut_secret_def js_def)
  from prepareSecret_total [of long_secret] obtain k1 where k1: "prepareSecret long_secret = Inr k1" ..
  from prepareSecret_total [of cut_secret] obtain k2 where k2: "prepareSecret cut_secret = Inr k2" ..
  from k1 ne obtain p1 where
    p1: "paseto sample_large (Some ((test_options None)\<lparr>opt_secret := Some long_secret\<rparr>)) = Inr p1"
    by (simp add: paseto_def test_options_def Let_def)
  from k2 ne obtain p2 where
    p2: "paseto sample_large (Some ((test_options None)\<lparr>opt_secret := Some cut_secret\<rparr>)) = Inr p2"
    by (simp add: paseto_def test_options_def Let_def)
  from prepareSecret_not_injective a b c d p1 p2 show ?thesis
    by blast
qed

end
